theory Spec2Isabelle
  imports Complex_Main "HOL-Library.Word"
begin

section \<open>Exceptions\<close>

text \<open>
  The exception classes the sources raise or catch.  An exception value is its exact
  class together with its message; \<open>isinstance\<close> follows the class hierarchy declared
  in \<^verbatim>\<open>speech_recognition.py\<close>, \<^verbatim>\<open>audio_capture.py\<close> and \<^verbatim>\<open>hotkey_listener.py\<close>.
  Only subclasses of \<^verbatim>\<open>Exception\<close> are modelled: these are the ones an
  \<^verbatim>\<open>except Exception\<close> clause catches.
\<close>

datatype exn_class =
    Exception
  | RuntimeError
  | ValueError
  | AttributeError
  | OSError
  | ZeroDivisionError
  | TranscriptionError
  | ModelLoadError
  | AudioDeviceError
  | MicrophoneNotFoundError
  | PermissionDeniedError
  | DeviceBusyError
  | HotkeyError
  | HotkeyRegistrationError
  | InputSimulationError

type_synonym exn = "exn_class \<times> string"

fun base_class :: "exn_class \<Rightarrow> exn_class option" where
  "base_class Exception = None"
| "base_class ModelLoadError = Some TranscriptionError"
| "base_class MicrophoneNotFoundError = Some AudioDeviceError"
| "base_class PermissionDeniedError = Some AudioDeviceError"
| "base_class DeviceBusyError = Some AudioDeviceError"
| "base_class HotkeyRegistrationError = Some HotkeyError"
| "base_class _ = Some Exception"

text \<open>The hierarchy is at most three classes deep.\<close>

definition isinstance :: "exn \<Rightarrow> exn_class \<Rightarrow> bool" where
  "isinstance e c =
     (let c0 = fst e in
      c0 = c \<or> base_class c0 = Some c \<or>
      (case base_class c0 of None \<Rightarrow> False | Some c1 \<Rightarrow> base_class c1 = Some c))"

definition str_of :: "exn \<Rightarrow> string" where
  "str_of e = snd e"

section \<open>Strings\<close>

text \<open>
  Python strings are modelled as \<^typ>\<open>string\<close>; the helpers below are the string methods
  the sources call, on the characters below 256.
\<close>

definition isspace :: "char \<Rightarrow> bool" where
  "isspace c = (of_char c \<in> {9, 10, 11, 12, 13, 28, 29, 30, 31, 32, 133, 160 :: nat})"

definition isupper :: "char \<Rightarrow> bool" where
  "isupper c = (let n = of_char c :: nat in
     (65 \<le> n \<and> n \<le> 90) \<or> (192 \<le> n \<and> n \<le> 222 \<and> n \<noteq> 215))"

definition lower_char :: "char \<Rightarrow> char" where
  "lower_char c = (let n = of_char c :: nat in
     if (65 \<le> n \<and> n \<le> 90) \<or> (192 \<le> n \<and> n \<le> 222 \<and> n \<noteq> 215)
     then char_of (n + 32) else c)"

definition lower :: "string \<Rightarrow> string" where
  "lower s = map lower_char s"

definition lstrip :: "string \<Rightarrow> string" where
  "lstrip s = dropWhile isspace s"

definition strip :: "string \<Rightarrow> string" where
  "strip s = rev (dropWhile isspace (rev (dropWhile isspace s)))"

text \<open>\<^verbatim>\<open>s.split(sep)\<close> for a one-character separator: always at least one part.\<close>

fun split_on :: "char \<Rightarrow> string \<Rightarrow> string list" where
  "split_on sep [] = [[]]"
| "split_on sep (c # cs) =
     (if c = sep then [] # split_on sep cs
      else (case split_on sep cs of
              [] \<Rightarrow> [[c]]
            | p # ps \<Rightarrow> (c # p) # ps))"

text \<open>\<^verbatim>\<open>s.split()\<close>: the maximal runs of non-whitespace characters.\<close>

fun split_ws :: "string \<Rightarrow> string list" where
  "split_ws [] = []"
| "split_ws (c # cs) =
     (if isspace c then split_ws cs
      else (case cs of
              [] \<Rightarrow> [[c]]
            | d # _ \<Rightarrow>
                (if isspace d then [c] # split_ws cs
                 else (case split_ws cs of
                         [] \<Rightarrow> [[c]]
                       | w # ws \<Rightarrow> (c # w) # ws))))"

section \<open>The hotkey listeners\<close>

subsection \<open>Keys\<close>

text \<open>
  The members of \<^verbatim>\<open>pynput.keyboard.Key\<close> that \<^verbatim>\<open>hotkey_listener.py\<close> names; every
  other member is \<open>other n\<close>.
\<close>

datatype Key =
    space | ctrl | ctrl_l | ctrl_r | alt | alt_l | alt_r
  | shift | shift_l | shift_r | tab | enter | esc
  | f nat
  | other nat

text \<open>
  What the keyboard listener hands to the callbacks: a member of \<^verbatim>\<open>Key\<close>, or a
  \<^verbatim>\<open>KeyCode\<close> whose \<^verbatim>\<open>char\<close> attribute is a string or \<^verbatim>\<open>None\<close>.
\<close>

datatype key_event = Special Key | KeyCode "string option"

text \<open>
  A value of \<^verbatim>\<open>KEY_MAPPING\<close>, of \<^verbatim>\<open>_target_key\<close> and of the elements of
  \<^verbatim>\<open>_required_modifiers\<close>: a string or a member of \<^verbatim>\<open>Key\<close>.
\<close>

datatype keyval = Str string | K Key

definition KEY_MAPPING :: "(string \<times> keyval) list" where
  "KEY_MAPPING =
     [(''backslash'', Str [CHR 0x5C]),
      (''space'', K space),
      (''ctrl'', K ctrl),
      (''ctrl_l'', K ctrl_l),
      (''ctrl_r'', K ctrl_r),
      (''alt'', K alt),
      (''alt_l'', K alt_l),
      (''alt_r'', K alt_r),
      (''shift'', K shift),
      (''tab'', K tab),
      (''enter'', K enter),
      (''esc'', K esc),
      (''f1'', K (f 1)), (''f2'', K (f 2)), (''f3'', K (f 3)), (''f4'', K (f 4)),
      (''f5'', K (f 5)), (''f6'', K (f 6)), (''f7'', K (f 7)), (''f8'', K (f 8)),
      (''f9'', K (f 9)), (''f10'', K (f 10)), (''f11'', K (f 11)), (''f12'', K (f 12))]"

subsection \<open>\<^verbatim>\<open>HotkeyListener\<close> (pynput)\<close>

datatype hotkey_signal = PressCallback | ReleaseCallback

text \<open>
  The fields of \<^verbatim>\<open>HotkeyListener\<close> that the key handlers read or write.  The two
  callbacks are optional in the source; \<open>calls\<close> records, in order, each call the
  listener makes to one of them.  An exception from a callback is caught and logged by
  the handlers, so it changes nothing here.
\<close>

record hotkey_listener =
  on_press_callback :: bool
  on_release_callback :: bool
  min_press_duration :: real
  key_pressed :: bool
  press_start_time :: "real option"
  pressed_modifiers :: "Key set"
  target_key :: keyval
  required_modifiers :: "keyval set"
  calls :: "hotkey_signal list"

text \<open>\<^verbatim>\<open>_parse_hotkey\<close>.\<close>

fun parse_modifiers :: "string list \<Rightarrow> exn + keyval set" where
  "parse_modifiers [] = Inr {}"
| "parse_modifiers (mod_name # rest) =
     (case map_of KEY_MAPPING mod_name of
        None \<Rightarrow> Inl (HotkeyRegistrationError, ''Invalid modifier: '' @ mod_name)
      | Some mod_key \<Rightarrow>
          (case parse_modifiers rest of
             Inl e \<Rightarrow> Inl e
           | Inr ms \<Rightarrow> Inr (insert mod_key ms)))"

definition parse_hotkey :: "string \<Rightarrow> exn + (keyval \<times> keyval set)" where
  "parse_hotkey hotkey =
     (if CHR ''+'' \<in> set hotkey then
        (let parts = map (\<lambda>p. lower (strip p)) (split_on CHR ''+'' hotkey) in
         if length parts < 2 then
           Inl (HotkeyRegistrationError, ''Invalid hotkey combination: '' @ hotkey)
         else
           (let target_key_name = last parts; modifier_names = butlast parts in
            case (case map_of KEY_MAPPING target_key_name of
                    Some k \<Rightarrow> Inr k
                  | None \<Rightarrow>
                      if length target_key_name = 1 then Inr (Str target_key_name)
                      else Inl (HotkeyRegistrationError,
                                ''Invalid target key: '' @ target_key_name)) of
              Inl e \<Rightarrow> Inl e
            | Inr tk \<Rightarrow>
                (case parse_modifiers modifier_names of
                   Inl e \<Rightarrow> Inl e
                 | Inr ms \<Rightarrow> Inr (tk, ms))))
      else
        (case map_of KEY_MAPPING (lower hotkey) of
           Some k \<Rightarrow> Inr (k, {})
         | None \<Rightarrow>
             if length hotkey = 1 then Inr (Str hotkey, {})
             else Inl (HotkeyRegistrationError, ''Invalid hotkey: '' @ hotkey)))"

text \<open>
  \<^verbatim>\<open>__init__\<close> followed by \<^verbatim>\<open>start\<close>: the listener as it stands when the first key
  event arrives.  \<open>min_press\<close> is in milliseconds.
\<close>

definition HotkeyListener :: "string \<Rightarrow> bool \<Rightarrow> bool \<Rightarrow> int \<Rightarrow> exn + hotkey_listener" where
  "HotkeyListener hotkey on_press on_release min_press =
     (case parse_hotkey hotkey of
        Inl e \<Rightarrow> Inl e
      | Inr (tk, ms) \<Rightarrow>
          Inr \<lparr> on_press_callback = on_press,
                on_release_callback = on_release,
                min_press_duration = real_of_int min_press / 1000,
                key_pressed = False,
                press_start_time = None,
                pressed_modifiers = {},
                target_key = tk,
                required_modifiers = ms,
                calls = [] \<rparr>)"

definition is_target_key :: "hotkey_listener \<Rightarrow> key_event \<Rightarrow> bool" where
  "is_target_key s key =
     (case key of
        KeyCode (Some c) \<Rightarrow> Str c = target_key s
      | KeyCode None \<Rightarrow> False
      | Special k \<Rightarrow> K k = target_key s)"

definition is_modifier_key :: "key_event \<Rightarrow> bool" where
  "is_modifier_key key =
     (case key of
        Special k \<Rightarrow>
          k \<in> {ctrl, ctrl_l, ctrl_r, alt, alt_l, alt_r, shift, shift_l, shift_r}
      | KeyCode _ \<Rightarrow> False)"

definition modifier_pressed :: "Key set \<Rightarrow> keyval \<Rightarrow> bool" where
  "modifier_pressed pressed required_mod =
     (case required_mod of
        Str _ \<Rightarrow> False
      | K k \<Rightarrow>
          k \<in> pressed
          \<or> (k = ctrl \<and> (ctrl_l \<in> pressed \<or> ctrl_r \<in> pressed))
          \<or> (k = alt \<and> (alt_l \<in> pressed \<or> alt_r \<in> pressed))
          \<or> (k = shift \<and> (shift_l \<in> pressed \<or> shift_r \<in> pressed)))"

definition are_modifiers_pressed :: "hotkey_listener \<Rightarrow> bool" where
  "are_modifiers_pressed s =
     (\<forall>required_mod \<in> required_modifiers s.
        modifier_pressed (pressed_modifiers s) required_mod)"

text \<open>
  \<^verbatim>\<open>_on_key_press\<close>.  \<open>now\<close> is the reading of \<^verbatim>\<open>time.time()\<close>; the result is the
  handler's return value (\<open>False\<close> asks for the key to be suppressed) and the listener
  afterwards.
\<close>

definition on_key_press :: "real \<Rightarrow> key_event \<Rightarrow> hotkey_listener \<Rightarrow> bool \<times> hotkey_listener" where
  "on_key_press now key s =
     (if is_modifier_key key then
        (case key of
           Special k \<Rightarrow> (True, s\<lparr>pressed_modifiers := insert k (pressed_modifiers s)\<rparr>)
         | KeyCode _ \<Rightarrow> (True, s))
      else if \<not> is_target_key s key then (True, s)
      else if \<not> are_modifiers_pressed s then (True, s)
      else if key_pressed s then (False, s)
      else (False,
            s\<lparr>key_pressed := True, press_start_time := Some now,
               calls := (if on_press_callback s then calls s @ [PressCallback]
                         else calls s)\<rparr>))"

text \<open>\<^verbatim>\<open>_trigger_callbacks\<close>.\<close>

definition trigger_callbacks :: "hotkey_listener \<Rightarrow> hotkey_listener" where
  "trigger_callbacks s =
     (if on_release_callback s then s\<lparr>calls := calls s @ [ReleaseCallback]\<rparr> else s)"

text \<open>
  \<^verbatim>\<open>_on_key_release\<close>.  The press duration is \<^verbatim>\<open>time.time() - start\<close> when a non-zero
  start time is stored and \<open>0\<close> otherwise.
\<close>

definition press_duration_of :: "real \<Rightarrow> real option \<Rightarrow> real" where
  "press_duration_of now start =
     (case start of None \<Rightarrow> 0 | Some t \<Rightarrow> if t \<noteq> 0 then now - t else 0)"

definition on_key_release :: "real \<Rightarrow> key_event \<Rightarrow> hotkey_listener \<Rightarrow> bool \<times> hotkey_listener" where
  "on_key_release now key s =
     (if is_modifier_key key then
        (case key of
           Special k \<Rightarrow> (True, s\<lparr>pressed_modifiers := pressed_modifiers s - {k}\<rparr>)
         | KeyCode _ \<Rightarrow> (True, s))
      else if \<not> is_target_key s key then (True, s)
      else if \<not> key_pressed s then (True, s)
      else
        (let press_duration = press_duration_of now (press_start_time s);
             s1 = s\<lparr>key_pressed := False, press_start_time := None\<rparr>
         in if press_duration < min_press_duration s1 then (False, s1)
            else (False, trigger_callbacks s1)))"

text \<open>A run of raw events, each with the clock reading at which it is handled.\<close>

datatype raw_event = Down real key_event | Up real key_event

fun handle_event :: "raw_event \<Rightarrow> hotkey_listener \<Rightarrow> bool \<times> hotkey_listener" where
  "handle_event (Down now key) s = on_key_press now key s"
| "handle_event (Up now key) s = on_key_release now key s"

fun handle_events :: "raw_event list \<Rightarrow> hotkey_listener \<Rightarrow> bool list \<times> hotkey_listener" where
  "handle_events [] s = ([], s)"
| "handle_events (e # es) s =
     (let (r, s1) = handle_event e s;
          (rs, s2) = handle_events es s1
      in (r # rs, s2))"

subsection \<open>\<^verbatim>\<open>EvdevHotkeyListener\<close>\<close>

text \<open>
  Key codes are the integers of \<^verbatim>\<open>evdev.ecodes\<close>; the event value is \<open>0\<close> for a
  release, \<open>1\<close> for a press and \<open>2\<close> for a key held down.
\<close>

record evdev_listener =
  ev_on_press_callback :: bool
  ev_on_release_callback :: bool
  ev_min_press_duration :: real
  ev_pressed_keys :: "int set"
  ev_hotkey_pressed :: bool
  ev_press_start_time :: "real option"
  ev_target_key :: int
  ev_required_modifiers :: "int set"
  ev_calls :: "hotkey_signal list"

definition handle_key_event :: "real \<Rightarrow> int \<Rightarrow> int \<Rightarrow> evdev_listener \<Rightarrow> evdev_listener" where
  "handle_key_event now key_code key_state s =
     (if key_state = 1 then
        (let s1 = s\<lparr>ev_pressed_keys := insert key_code (ev_pressed_keys s)\<rparr> in
         if key_code = ev_target_key s1
            \<and> ev_required_modifiers s1 \<subseteq> ev_pressed_keys s1
            \<and> \<not> ev_hotkey_pressed s1
         then s1\<lparr>ev_hotkey_pressed := True, ev_press_start_time := Some now,
                  ev_calls := (if ev_on_press_callback s1 then ev_calls s1 @ [PressCallback]
                               else ev_calls s1)\<rparr>
         else s1)
      else if key_state = 0 then
        (let s1 = s\<lparr>ev_pressed_keys := ev_pressed_keys s - {key_code}\<rparr> in
         if key_code = ev_target_key s1 \<and> ev_hotkey_pressed s1
         then s1\<lparr>ev_hotkey_pressed := False, ev_press_start_time := None,
                  ev_calls := (if ev_on_release_callback s1
                               then ev_calls s1 @ [ReleaseCallback] else ev_calls s1)\<rparr>
         else s1)
      else s)"

section \<open>Audio capture\<close>

type_synonym bytes = "8 word list"

text \<open>
  \<^verbatim>\<open>collections.deque(maxlen=n).append(x)\<close>: the element is added on the right and,
  if the deque is then longer than \<open>n\<close>, one element is removed on the left.
\<close>

definition deque_append :: "nat \<Rightarrow> 'a list \<Rightarrow> 'a \<Rightarrow> 'a list" where
  "deque_append maxlen d x =
     (let d1 = d @ [x] in if length d1 > maxlen then tl d1 else d1)"


text \<open>\<^verbatim>\<open>sub in s\<close> on strings.\<close>

fun contains :: "string \<Rightarrow> string \<Rightarrow> bool" where
  "contains sub [] = (sub = [])"
| "contains sub (c # cs) = (take (length sub) (c # cs) = sub \<or> contains sub cs)"

datatype device_op = PyAudioCreate | OpenStream | StopStream | CloseStream | Terminate

text \<open>
  The state of an \<^verbatim>\<open>AudioCapture\<close> object.  \<open>pyaudio\<close> says whether \<^verbatim>\<open>_pyaudio\<close>
  holds an instance, \<open>stream\<close> is \<open>None\<close> or the stream with its \<^verbatim>\<open>is_active()\<close>
  reading, \<open>buffer_maxlen\<close> is the \<^verbatim>\<open>maxlen\<close> of the deque \<^verbatim>\<open>_audio_buffer\<close>.
  \<open>device_ops\<close> lists the calls made to PyAudio and \<open>delivered\<close> the chunks handed to
  the chunk callback, both in order.
\<close>

record audio_capture =
  sample_rate :: int
  channels :: int
  chunk_duration :: real
  max_recording_duration :: int
  chunk_size :: int
  pyaudio :: bool
  stream :: "bool option"
  is_recording :: bool
  audio_buffer :: "bytes list"
  buffer_maxlen :: nat
  current_audio_level :: real
  chunk_callback :: bool
  apply_noise_reduction :: bool
  device_ops :: "device_op list"
  delivered :: "bytes list"

text \<open>
  What the audio libraries do on one call of an operation: whether
  \<^verbatim>\<open>pyaudio.PyAudio()\<close> and \<^verbatim>\<open>open\<close> raise, whether an input device is listed, whether
  stopping, closing and terminating raise, the level numpy computes for a chunk and the
  result of \<^verbatim>\<open>noisereduce\<close> (\<open>None\<close> when the library is missing or fails).
\<close>

record audio_env =
  pyaudio_create :: "exn option"
  has_input_device :: bool
  stream_open :: "exn option"
  stop_stream_raises :: bool
  close_raises :: bool
  terminate_raises :: bool
  calculate_audio_level :: "bytes \<Rightarrow> real"
  reduce_noise :: "bytes \<Rightarrow> bytes option"


text \<open>\<^verbatim>\<open>_initialize_pyaudio\<close>.\<close>

definition initialize_pyaudio :: "audio_env \<Rightarrow> audio_capture \<Rightarrow> exn option \<times> audio_capture" where
  "initialize_pyaudio env s =
     (if pyaudio s then (None, s)
      else
        (let s0 = s\<lparr>device_ops := device_ops s @ [PyAudioCreate]\<rparr> in
         case pyaudio_create env of
           Some e \<Rightarrow>
             if isinstance e OSError then
               (if contains ''Permission denied'' (str_of e) \<or> contains ''EACCES'' (str_of e)
                then (Some (PermissionDeniedError,
                            ''Permission denied accessing audio device: '' @ str_of e), s0)
                else (Some (AudioDeviceError,
                            ''Failed to initialize audio device: '' @ str_of e), s0))
             else (Some (AudioDeviceError, ''Failed to initialize PyAudio: '' @ str_of e), s0)
         | None \<Rightarrow>
             (let s1 = s0\<lparr>pyaudio := True\<rparr> in
              if \<not> has_input_device env
              then (Some (AudioDeviceError,
                          ''Failed to initialize PyAudio: No microphone device found''), s1)
              else (None, s1))))"

text \<open>\<^verbatim>\<open>_open_stream\<close>.\<close>

definition open_stream :: "audio_env \<Rightarrow> audio_capture \<Rightarrow> exn option \<times> audio_capture" where
  "open_stream env s =
     (if stream s = Some True then (None, s)
      else
        (let s0 = s\<lparr>device_ops := device_ops s @ [OpenStream]\<rparr> in
         case stream_open env of
           None \<Rightarrow> (None, s0\<lparr>stream := Some True\<rparr>)
         | Some e \<Rightarrow>
             if isinstance e OSError then
               (let error_msg = lower (str_of e) in
                if contains ''permission denied'' error_msg \<or> contains ''eacces'' error_msg
                then (Some (PermissionDeniedError,
                            ''Permission denied opening audio stream: '' @ str_of e), s0)
                else if contains ''device busy'' error_msg \<or> contains ''ebusy'' error_msg
                then (Some (DeviceBusyError, ''Audio device is busy: '' @ str_of e), s0)
                else (Some (AudioDeviceError,
                            ''Failed to open audio stream: '' @ str_of e), s0))
             else (Some (AudioDeviceError, ''Failed to open audio stream: '' @ str_of e), s0)))"

text \<open>
  \<^verbatim>\<open>start_recording\<close>, up to the start of the recording thread; \<open>cb\<close> says whether a
  chunk callback is given.
\<close>

definition start_recording :: "audio_env \<Rightarrow> bool \<Rightarrow> audio_capture \<Rightarrow> exn option \<times> audio_capture" where
  "start_recording env cb s =
     (if is_recording s then (Some (RuntimeError, ''Recording already in progress''), s)
      else
        (case initialize_pyaudio env s of
           (Some e, s1) \<Rightarrow> (Some e, s1)
         | (None, s1) \<Rightarrow>
             (case open_stream env s1 of
                (Some e, s2) \<Rightarrow> (Some e, s2)
              | (None, s2) \<Rightarrow>
                  (None, s2\<lparr>audio_buffer := [], is_recording := True,
                            chunk_callback := cb\<rparr>))))"


text \<open>\<^verbatim>\<open>_close_stream\<close>: exceptions from the stream are caught and logged.\<close>

definition close_stream :: "audio_env \<Rightarrow> audio_capture \<Rightarrow> audio_capture" where
  "close_stream env s =
     (case stream s of
        None \<Rightarrow> s
      | Some active \<Rightarrow>
          s\<lparr>stream := None,
            device_ops := device_ops s
              @ (if active then [StopStream] else [])
              @ (if active \<and> stop_stream_raises env then [] else [CloseStream])\<rparr>)"

text \<open>\<^verbatim>\<open>_apply_noise_reduction_filter\<close>: on any failure the audio is returned as it is.\<close>

definition apply_noise_reduction_filter :: "audio_env \<Rightarrow> bytes \<Rightarrow> bytes" where
  "apply_noise_reduction_filter env audio_data =
     (case reduce_noise env audio_data of None \<Rightarrow> audio_data | Some r \<Rightarrow> r)"

text \<open>\<^verbatim>\<open>stop_recording\<close>, after the recording thread has been joined.\<close>

definition stop_recording :: "audio_env \<Rightarrow> audio_capture \<Rightarrow> (exn + bytes) \<times> audio_capture" where
  "stop_recording env s =
     (if \<not> is_recording s then (Inl (RuntimeError, ''Recording is not in progress''), s)
      else
        (let s1 = s\<lparr>is_recording := False, chunk_callback := False\<rparr>;
             audio_data = concat (audio_buffer s1);
             s2 = s1\<lparr>audio_buffer := []\<rparr>;
             audio_data1 =
               (if apply_noise_reduction s2 \<and> length audio_data > 0
                then apply_noise_reduction_filter env audio_data else audio_data)
         in (Inr audio_data1, close_stream env s2)))"

text \<open>\<^verbatim>\<open>release_device\<close>.\<close>

definition release_device :: "audio_env \<Rightarrow> audio_capture \<Rightarrow> audio_capture" where
  "release_device env s =
     (let s1 = (if is_recording s then snd (stop_recording env s) else s);
          s2 = close_stream env s1;
          s3 = (if pyaudio s2
                then s2\<lparr>pyaudio := False, device_ops := device_ops s2 @ [Terminate]\<rparr>
                else s2)
      in s3\<lparr>audio_buffer := [], current_audio_level := 0\<rparr>)"

section \<open>Speech recognition\<close>

text \<open>
  A segment as the inference library yields it, and the two dataclasses of
  \<^verbatim>\<open>speech_recognition.py\<close>.
\<close>

record segment =
  seg_text :: string
  seg_start :: real
  seg_end :: real
  avg_logprob :: real

record transcription_segment =
  ts_text :: string
  ts_start :: real
  ts_end :: real
  ts_confidence :: real

record transcription_result =
  tr_text :: string
  tr_confidence :: real
  tr_language :: string
  tr_duration :: real
  tr_segments :: "transcription_segment list"
  tr_is_final :: bool

text \<open>
  What the inference library does: whether constructing \<^verbatim>\<open>WhisperModel\<close> raises, what
  \<^verbatim>\<open>model.transcribe\<close> gives for an audio array (written as the PCM bytes it was
  converted from), a language and the \<^verbatim>\<open>vad_filter\<close> flag, namely an exception or the
  segments and the language of \<^verbatim>\<open>info\<close>; the verdict of the energy test of
  \<^verbatim>\<open>_has_voice_activity\<close>; and the time a transcription takes.
\<close>

record recognizer_env =
  whisper_model_init :: "exn option"
  whisper :: "bytes \<Rightarrow> string option \<Rightarrow> bool \<Rightarrow> exn + (segment list \<times> string)"
  has_voice_activity :: "bytes \<Rightarrow> bool"
  elapsed :: real

text \<open>
  The state of a \<^verbatim>\<open>SpeechRecognizer\<close>.  \<open>streaming_callback\<close> says whether
  \<^verbatim>\<open>_streaming_callback\<close> holds a callback, \<open>unload_timer\<close> whether an unload timer is
  armed, \<open>stream_sample_rate\<close> is the attribute \<^verbatim>\<open>_sample_rate\<close>, which exists only once
  streaming has been started.  \<open>emitted\<close> lists the calls made to the streaming
  callback, in order, each with its text and its \<^verbatim>\<open>is_final\<close> flag; an exception from
  the callback is caught and logged.
\<close>

record speech_recognizer =
  language :: "string option"
  vad_enabled :: bool
  model_loaded :: bool
  is_streaming :: bool
  streaming_callback :: bool
  context_window :: "bytes list"
  current_transcription :: string
  unload_timer :: bool
  unload_after_seconds :: int
  stream_sample_rate :: "int option"
  emitted :: "(string \<times> bool) list"

text \<open>\<^verbatim>\<open>SpeechRecognizer.__init__\<close>.\<close>

definition SpeechRecognizer :: "string \<Rightarrow> bool \<Rightarrow> speech_recognizer" where
  "SpeechRecognizer lang vad =
     \<lparr> language = (if lang = ''auto'' then None else Some lang),
       vad_enabled = vad, model_loaded = False, is_streaming = False,
       streaming_callback = False, context_window = [], current_transcription = [],
       unload_timer = False, unload_after_seconds = 0, stream_sample_rate = None,
       emitted = [] \<rparr>"

text \<open>\<^verbatim>\<open>_load_model\<close> and \<^verbatim>\<open>_ensure_model_loaded\<close>.\<close>

definition load_model :: "recognizer_env \<Rightarrow> speech_recognizer \<Rightarrow> exn option \<times> speech_recognizer" where
  "load_model env s =
     (if model_loaded s then (None, s)
      else
        (let s1 = s\<lparr>unload_timer := False\<rparr> in
         case whisper_model_init env of
           Some e \<Rightarrow> (Some (ModelLoadError, ''Failed to load model: '' @ str_of e), s1)
         | None \<Rightarrow> (None, s1\<lparr>model_loaded := True\<rparr>)))"

definition ensure_model_loaded :: "recognizer_env \<Rightarrow> speech_recognizer \<Rightarrow> exn option \<times> speech_recognizer" where
  "ensure_model_loaded env s = (if \<not> model_loaded s then load_model env s else (None, s))"

text \<open>\<^verbatim>\<open>_schedule_model_unload\<close> and \<^verbatim>\<open>unload_model\<close>.\<close>

definition schedule_model_unload :: "speech_recognizer \<Rightarrow> speech_recognizer" where
  "schedule_model_unload s =
     (if unload_after_seconds s \<le> 0 then s else s\<lparr>unload_timer := True\<rparr>)"

definition unload_model :: "speech_recognizer \<Rightarrow> speech_recognizer" where
  "unload_model s =
     (if \<not> model_loaded s then s else s\<lparr>unload_timer := False, model_loaded := False\<rparr>)"

text \<open>
  \<^verbatim>\<open>_convert_audio_to_array\<close>: \<^verbatim>\<open>np.frombuffer\<close> with 16-bit elements raises on a buffer
  of odd length.
\<close>

definition convert_audio_to_array :: "bytes \<Rightarrow> exn + bytes" where
  "convert_audio_to_array audio_data =
     (if odd (length audio_data)
      then Inl (ValueError, ''buffer size must be a multiple of element size'')
      else Inr audio_data)"

text \<open>\<^verbatim>\<open>_detect_language\<close>: any failure gives \<^verbatim>\<open>"en"\<close>.\<close>

definition detect_language :: "recognizer_env \<Rightarrow> bytes \<Rightarrow> speech_recognizer \<Rightarrow> string \<times> speech_recognizer" where
  "detect_language env audio_array s =
     (case ensure_model_loaded env s of
        (Some e, s1) \<Rightarrow> (''en'', s1)
      | (None, s1) \<Rightarrow>
          (case whisper env audio_array None (vad_enabled s1) of
             Inl e \<Rightarrow> (''en'', s1)
           | Inr (segs, detected) \<Rightarrow> (detected, s1)))"

text \<open>\<^verbatim>\<open>x or "unknown"\<close> on strings.\<close>

definition or_unknown :: "string \<Rightarrow> string" where
  "or_unknown x = (if x = [] then ''unknown'' else x)"

text \<open>
  \<^verbatim>\<open>transcribe\<close>: first the body of its \<^verbatim>\<open>try\<close> block, then the whole method, whose
  \<^verbatim>\<open>except Exception\<close> clause turns every exception of the body into a
  \<^verbatim>\<open>TranscriptionError\<close>.
\<close>

definition transcribe_body :: "recognizer_env \<Rightarrow> bytes \<Rightarrow> speech_recognizer \<Rightarrow> (exn + transcription_result) \<times> speech_recognizer" where
  "transcribe_body env audio_data s =
     (case ensure_model_loaded env s of
        (Some e, s1) \<Rightarrow> (Inl e, s1)
      | (None, s1) \<Rightarrow>
          (case convert_audio_to_array audio_data of
             Inl e \<Rightarrow> (Inl e, s1)
           | Inr audio_array \<Rightarrow>
               (let (detected_language, s2) =
                      (case language s1 of
                         Some l \<Rightarrow> (l, s1)
                       | None \<Rightarrow> detect_language env audio_array s1)
                in case whisper env audio_array (Some detected_language) (vad_enabled s2) of
                     Inl e \<Rightarrow> (Inl e, s2)
                   | Inr (segs, info) \<Rightarrow>
                       (let total_confidence = sum_list (map avg_logprob segs);
                            segment_count = length segs;
                            avg_confidence =
                              (if segment_count > 0
                               then total_confidence / real segment_count else 0);
                            final_text = strip (concat (map seg_text segs))
                        in (Inr \<lparr> tr_text = final_text,
                                   tr_confidence = avg_confidence,
                                   tr_language = or_unknown detected_language,
                                   tr_duration = elapsed env,
                                   tr_segments =
                                     map (\<lambda>g. \<lparr> ts_text = seg_text g, ts_start = seg_start g,
                                                ts_end = seg_end g,
                                                ts_confidence = avg_logprob g \<rparr>) segs,
                                   tr_is_final = True \<rparr>,
                            schedule_model_unload s2)))))"

definition transcribe :: "recognizer_env \<Rightarrow> bytes \<Rightarrow> int \<Rightarrow> speech_recognizer \<Rightarrow> (exn + transcription_result) \<times> speech_recognizer" where
  "transcribe env audio_data rate s =
     (case transcribe_body env audio_data s of
        (Inl e, s1) \<Rightarrow> (Inl (TranscriptionError, ''Transcription failed: '' @ str_of e), s1)
      | (Inr result, s1) \<Rightarrow> (Inr result, s1))"

text \<open>\<^verbatim>\<open>start_streaming_transcription\<close>.\<close>

definition start_streaming_transcription :: "recognizer_env \<Rightarrow> int \<Rightarrow> speech_recognizer \<Rightarrow> exn option \<times> speech_recognizer" where
  "start_streaming_transcription env rate s =
     (if is_streaming s
      then (Some (RuntimeError, ''Streaming transcription already in progress''), s)
      else
        (case ensure_model_loaded env s of
           (Some e, s1) \<Rightarrow> (Some e, s1)
         | (None, s1) \<Rightarrow>
             (None, s1\<lparr>current_transcription := [], context_window := [],
                       is_streaming := True, streaming_callback := True,
                       stream_sample_rate := Some rate\<rparr>)))"

text \<open>
  \<^verbatim>\<open>process_audio_chunk\<close>: every exception is caught and logged.  The context window is
  a deque of \<^verbatim>\<open>maxlen\<close> 2.
\<close>

definition process_audio_chunk :: "recognizer_env \<Rightarrow> bytes \<Rightarrow> speech_recognizer \<Rightarrow> speech_recognizer" where
  "process_audio_chunk env audio_chunk s =
     (if \<not> is_streaming s then s
      else
        (case convert_audio_to_array audio_chunk of
           Inl e \<Rightarrow> s
         | Inr chunk_array \<Rightarrow>
             if vad_enabled s \<and> \<not> has_voice_activity env chunk_array then s
             else
               (let s1 = s\<lparr>context_window := deque_append 2 (context_window s) chunk_array\<rparr>;
                    combined_audio = concat (context_window s1)
                in if \<not> model_loaded s1 then s1
                   else
                     (case whisper env combined_audio (language s1) False of
                        Inl e \<Rightarrow> s1
                      | Inr (segs, info) \<Rightarrow>
                          (let new_transcription = strip (concat (map seg_text segs)) in
                           if new_transcription \<noteq> current_transcription s1
                           then s1\<lparr>current_transcription := new_transcription,
                                   emitted :=
                                     (if streaming_callback s1
                                      then emitted s1 @ [(new_transcription, False)]
                                      else emitted s1)\<rparr>
                           else s1)))))"

text \<open>\<^verbatim>\<open>stop_streaming_transcription\<close>.\<close>

definition stop_streaming_transcription :: "speech_recognizer \<Rightarrow> speech_recognizer" where
  "stop_streaming_transcription s =
     (if \<not> is_streaming s then s
      else schedule_model_unload
             (s\<lparr>is_streaming := False, streaming_callback := False, context_window := []\<rparr>))"

text \<open>\<^verbatim>\<open>_estimate_confidence\<close>.\<close>

definition estimate_confidence :: "string \<Rightarrow> real" where
  "estimate_confidence txt =
     (if txt = [] then 0
      else
        (let c0 = 5 / 10;
             c1 = (if length txt > 10 then c0 + 2 / 10 else c0);
             c2 = (if list_ex (\<lambda>ch. ch \<in> set txt) ''.,!?;:'' then c1 + 1 / 10 else c1);
             c3 = (if isupper (hd txt) then c2 + 1 / 10 else c2);
             word_count = length (split_ws txt);
             c4 = (if word_count > 3 then c3 + 1 / 10 else c3)
         in min c4 1))"

text \<open>
  \<^verbatim>\<open>finalize_transcription\<close>: the body of its \<^verbatim>\<open>try\<close> block, then the whole method.
  \<open>audio_data\<close> is \<open>None\<close> when the argument is left out.
\<close>

definition finalize_body :: "recognizer_env \<Rightarrow> bytes option \<Rightarrow> speech_recognizer \<Rightarrow> (exn + transcription_result) \<times> speech_recognizer" where
  "finalize_body env audio_data s =
     (if (case audio_data of None \<Rightarrow> False | Some a \<Rightarrow> length a > 0) then
        (case stream_sample_rate s of
           None \<Rightarrow>
             (Inl (AttributeError,
                   ''SpeechRecognizer object has no attribute _sample_rate''), s)
         | Some rate \<Rightarrow>
             (case transcribe env (the audio_data) rate s of
                (Inl e, s1) \<Rightarrow> (Inl e, s1)
              | (Inr result, s1) \<Rightarrow>
                  (Inr result,
                   if is_streaming s1 then stop_streaming_transcription s1 else s1)))
      else
        (let final_text = current_transcription s;
             confidence = estimate_confidence final_text;
             s1 = (if is_streaming s then stop_streaming_transcription s else s);
             result = \<lparr> tr_text = final_text, tr_confidence = confidence,
                        tr_language = (case language s1 of None \<Rightarrow> ''unknown''
                                       | Some l \<Rightarrow> or_unknown l),
                        tr_duration = 0, tr_segments = [], tr_is_final = True \<rparr>;
             s2 = (if streaming_callback s1
                   then s1\<lparr>emitted := emitted s1 @ [(final_text, True)]\<rparr> else s1)
         in (Inr result, s2)))"

definition finalize_transcription :: "recognizer_env \<Rightarrow> bytes option \<Rightarrow> speech_recognizer \<Rightarrow> (exn + transcription_result) \<times> speech_recognizer" where
  "finalize_transcription env audio_data s =
     (case finalize_body env audio_data s of
        (Inl e, s1) \<Rightarrow> (Inl (TranscriptionError, ''Finalization failed: '' @ str_of e), s1)
      | (Inr result, s1) \<Rightarrow> (Inr result, s1))"

section \<open>The daemon\<close>

text \<open>
  The calls the daemon makes to its collaborators, in the order of \<open>trace\<close>.  The
  overlay and the input simulator are outside this development: of them only the
  calls and whether a call raises are recorded.
\<close>

datatype daemon_call =
    OverlayShowRecording
  | OverlayHide
  | OverlayShowError string
  | OverlayUpdateTranscription string bool
  | OverlayShowCompletion
  | InputStartStreaming
  | InputFinalize
  | RecognizerStartStreaming
  | RecognizerFinalize
  | AudioStartRecording
  | AudioStopRecording
  | AudioReleaseDevice

record daemon_env =
  overlay_is_visible :: bool
  show_recording_raises :: "exn option"
  update_transcription_raises :: "exn option"
  show_completion_raises :: "exn option"
  start_streaming_input_raises :: "exn option"
  finalize_input_raises :: "exn option"
  audio_lib :: audio_env
  recognizer_lib :: recognizer_env

text \<open>
  The state of \<^verbatim>\<open>ZephyrDaemon\<close>'s session handling: the flag \<^verbatim>\<open>_is_recording\<close>, which
  subsystems are present (each is \<^verbatim>\<open>Optional\<close> in the source), the audio capture and
  speech recogniser objects themselves, and the sample rate of the configuration
  (\<open>None\<close> when there is no configuration).
\<close>

record daemon =
  daemon_is_recording :: bool
  ui_overlay :: bool
  input_simulator :: bool
  audio_capture :: "audio_capture option"
  speech_recognizer :: "speech_recognizer option"
  config_sample_rate :: "int option"
  trace :: "daemon_call list"

definition call :: "daemon_call \<Rightarrow> daemon \<Rightarrow> daemon" where
  "call c d = d\<lparr>trace := trace d @ [c]\<rparr>"

text \<open>Sequencing of steps that may raise: the first exception ends the sequence.\<close>

definition and_then :: "exn option \<times> 's \<Rightarrow> ('s \<Rightarrow> exn option \<times> 's) \<Rightarrow> exn option \<times> 's" where
  "and_then r k = (case r of (Some e, s) \<Rightarrow> (Some e, s) | (None, s) \<Rightarrow> k s)"

text \<open>
  \<^verbatim>\<open>_handle_error\<close>: the message goes to the overlay's \<^verbatim>\<open>show_error\<close>; an exception from
  the overlay is caught and logged.
\<close>

definition handle_error :: "string \<Rightarrow> daemon \<Rightarrow> daemon" where
  "handle_error message d = (if ui_overlay d then call (OverlayShowError message) d else d)"

text \<open>The four steps of the \<^verbatim>\<open>try\<close> block of \<^verbatim>\<open>_on_hotkey_press\<close>.\<close>

definition show_overlay_step :: "daemon_env \<Rightarrow> daemon \<Rightarrow> exn option \<times> daemon" where
  "show_overlay_step env d =
     (if ui_overlay d then (show_recording_raises env, call OverlayShowRecording d)
      else (None, d))"

definition start_recognizer_step :: "daemon_env \<Rightarrow> daemon \<Rightarrow> exn option \<times> daemon" where
  "start_recognizer_step env d =
     (case speech_recognizer d of
        None \<Rightarrow> (None, d)
      | Some r \<Rightarrow>
          (let rate = (case config_sample_rate d of None \<Rightarrow> 16000 | Some x \<Rightarrow> x);
               (res, r1) = start_streaming_transcription (recognizer_lib env) rate r
           in (res, (call RecognizerStartStreaming d)\<lparr>speech_recognizer := Some r1\<rparr>)))"

definition start_input_step :: "daemon_env \<Rightarrow> daemon \<Rightarrow> exn option \<times> daemon" where
  "start_input_step env d =
     (if input_simulator d then (start_streaming_input_raises env, call InputStartStreaming d)
      else (None, d))"

definition start_audio_step :: "daemon_env \<Rightarrow> daemon \<Rightarrow> exn option \<times> daemon" where
  "start_audio_step env d =
     (case audio_capture d of
        None \<Rightarrow> (None, d)
      | Some a \<Rightarrow>
          (let (res, a1) = start_recording (audio_lib env) True a
           in (res, (call AudioStartRecording d)\<lparr>audio_capture := Some a1\<rparr>)))"

definition start_session :: "daemon_env \<Rightarrow> daemon \<Rightarrow> exn option \<times> daemon" where
  "start_session env d =
     and_then
       (and_then
          (and_then (show_overlay_step env d) (start_recognizer_step env))
          (start_input_step env))
       (start_audio_step env)"

text \<open>
  \<^verbatim>\<open>_on_hotkey_press\<close>.  When the overlay is visible and no recording is active the
  handler only hides the overlay.
\<close>

definition on_hotkey_press :: "daemon_env \<Rightarrow> daemon \<Rightarrow> daemon" where
  "on_hotkey_press env d =
     (if daemon_is_recording d then d
      else if ui_overlay d \<and> overlay_is_visible env then call OverlayHide d
      else
        (case start_session env d of
           (None, d1) \<Rightarrow> d1\<lparr>daemon_is_recording := True\<rparr>
         | (Some e, d1) \<Rightarrow>
             (handle_error (''Failed to start recording: '' @ str_of e) d1)
               \<lparr>daemon_is_recording := False\<rparr>))"

text \<open>
  The steps of the \<^verbatim>\<open>try\<close> block of \<^verbatim>\<open>_on_hotkey_release\<close>.  The first gives the
  value of \<^verbatim>\<open>audio_data\<close>.
\<close>

definition stop_audio_step :: "daemon_env \<Rightarrow> daemon \<Rightarrow> (exn + bytes option) \<times> daemon" where
  "stop_audio_step env d =
     (case audio_capture d of
        None \<Rightarrow> (Inr None, d)
      | Some a \<Rightarrow>
          (let (res, a1) = stop_recording (audio_lib env) a;
               d1 = (call AudioStopRecording d)\<lparr>audio_capture := Some a1\<rparr>
           in case res of
                Inl e \<Rightarrow> (Inl e, d1)
              | Inr audio_data \<Rightarrow> (Inr (Some audio_data), d1)))"

definition show_result_step :: "daemon_env \<Rightarrow> transcription_result \<Rightarrow> daemon \<Rightarrow> exn option \<times> daemon" where
  "show_result_step env result d =
     (if ui_overlay d then
        and_then
          (update_transcription_raises env,
           call (OverlayUpdateTranscription (tr_text result) True) d)
          (\<lambda>d1. (show_completion_raises env, call OverlayShowCompletion d1))
      else (None, d))"

definition finalize_step :: "daemon_env \<Rightarrow> bytes option \<Rightarrow> daemon \<Rightarrow> exn option \<times> daemon" where
  "finalize_step env audio_data d =
     (case speech_recognizer d of
        None \<Rightarrow> (None, d)
      | Some r \<Rightarrow>
          if (case audio_data of None \<Rightarrow> False | Some a \<Rightarrow> a \<noteq> []) then
            (let (res, r1) = finalize_transcription (recognizer_lib env) audio_data r;
                 d1 = (call RecognizerFinalize d)\<lparr>speech_recognizer := Some r1\<rparr>
             in case res of
                  Inl e \<Rightarrow> (Some e, d1)
                | Inr result \<Rightarrow> show_result_step env result d1)
          else (None, d))"

definition finalize_input_step :: "daemon_env \<Rightarrow> daemon \<Rightarrow> exn option \<times> daemon" where
  "finalize_input_step env d =
     (if input_simulator d then (finalize_input_raises env, call InputFinalize d)
      else (None, d))"

definition release_audio :: "daemon_env \<Rightarrow> daemon \<Rightarrow> daemon" where
  "release_audio env d =
     (case audio_capture d of
        None \<Rightarrow> d
      | Some a \<Rightarrow>
          (call AudioReleaseDevice d)
            \<lparr>audio_capture := Some (release_device (audio_lib env) a)\<rparr>)"

definition stop_session :: "daemon_env \<Rightarrow> daemon \<Rightarrow> exn option \<times> daemon" where
  "stop_session env d =
     (case stop_audio_step env d of
        (Inl e, d1) \<Rightarrow> (Some e, d1)
      | (Inr audio_data, d1) \<Rightarrow>
          and_then
            (and_then (finalize_step env audio_data d1) (finalize_input_step env))
            (\<lambda>d2. (None, release_audio env (d2\<lparr>daemon_is_recording := False\<rparr>))))"

text \<open>\<^verbatim>\<open>_on_hotkey_release\<close>.\<close>

definition on_hotkey_release :: "daemon_env \<Rightarrow> daemon \<Rightarrow> daemon" where
  "on_hotkey_release env d =
     (if \<not> daemon_is_recording d then d
      else
        (case stop_session env d of
           (None, d1) \<Rightarrow> d1
         | (Some e, d1) \<Rightarrow>
             release_audio env
               ((handle_error (''Failed to process recording: '' @ str_of e) d1)
                  \<lparr>daemon_is_recording := False\<rparr>)))"

text \<open>The calls a handler has added to the trace.\<close>

definition new_calls :: "daemon \<Rightarrow> daemon \<Rightarrow> daemon_call list" where
  "new_calls d d1 = drop (length (trace d)) (trace d1)"

section \<open>Concrete listeners\<close>



definition ctrl_alt_r_listener :: hotkey_listener where
  "ctrl_alt_r_listener =
     \<lparr> on_press_callback = True, on_release_callback = True,
       min_press_duration = 100 / 1000, key_pressed = False, press_start_time = None,
       pressed_modifiers = {}, target_key = K alt_r, required_modifiers = {K ctrl},
       calls = [] \<rparr>"

section \<open>Auxiliary definitions for the audio buffer\<close>





section \<open>Concrete recognisers\<close>




section \<open>Properties of the audio capture engine\<close>

lemma close_stream_fields [simp]:
  "stream (close_stream e s) = None"
  "pyaudio (close_stream e s) = pyaudio s"
  "is_recording (close_stream e s) = is_recording s"
  "audio_buffer (close_stream e s) = audio_buffer s"
  "current_audio_level (close_stream e s) = current_audio_level s"
  "buffer_maxlen (close_stream e s) = buffer_maxlen s"
  by (simp_all add: close_stream_def split: option.splits)

lemma close_stream_closed: "stream s = None \<Longrightarrow> close_stream e s = s"
  by (simp add: close_stream_def)

lemma stop_recording_fields:
  "is_recording s \<Longrightarrow> stream (snd (stop_recording e s)) = None"
  "is_recording s \<Longrightarrow> \<not> is_recording (snd (stop_recording e s))"
  "pyaudio (snd (stop_recording e s)) = pyaudio s"
  by (simp_all add: stop_recording_def Let_def)

lemma release_device_fields:
  "stream (release_device e s) = None"
  "\<not> pyaudio (release_device e s)"
  "\<not> is_recording (release_device e s)"
  "audio_buffer (release_device e s) = []"
  "current_audio_level (release_device e s) = 0"
  by (simp_all add: release_device_def Let_def stop_recording_fields)

lemma release_device_released:
  assumes "stream s = None" and "\<not> pyaudio s" and "\<not> is_recording s"
    and "audio_buffer s = []" and "current_audio_level s = 0"
  shows "release_device e s = s"
  using assms by (simp add: release_device_def Let_def close_stream_closed)

text \<open>
  Claim C9.  Whatever the audio libraries do during either call, a second
  \<^verbatim>\<open>release_device\<close> leaves the object exactly as the first one left it (so it makes
  no further call to the device), and in that state the stream and the PyAudio handle
  are \<^verbatim>\<open>None\<close>, the audio buffer is empty and the audio level is \<open>0\<close>.
\<close>

theorem release_device_idempotent:
  "release_device env2 (release_device env1 s) = release_device env1 s
   \<and> stream (release_device env1 s) = None
   \<and> \<not> pyaudio (release_device env1 s)
   \<and> audio_buffer (release_device env1 s) = []
   \<and> current_audio_level (release_device env1 s) = 0"
proof -
  have "release_device env2 (release_device env1 s) = release_device env1 s"
    by (rule release_device_released) (simp_all add: release_device_fields)
  then show ?thesis
    by (simp add: release_device_fields)
qed












section \<open>Properties of the hotkey listener\<close>






text \<open>The evdev listener, in contrast, makes the release callback whatever the duration.\<close>

lemma evdev_release_always_fires:
  assumes "ev_hotkey_pressed s" and "ev_on_release_callback s"
  shows "ev_calls (handle_key_event now (ev_target_key s) 0 s) = ev_calls s @ [ReleaseCallback]"
    and "\<not> ev_hotkey_pressed (handle_key_event now (ev_target_key s) 0 s)"
  using assms by (simp_all add: handle_key_event_def Let_def)

lemma is_target_key_cong:
  "target_key s1 = target_key s \<Longrightarrow> is_target_key s1 key = is_target_key s key"
  by (simp add: is_target_key_def split: key_event.splits option.splits)

lemma are_modifiers_pressed_cong:
  "required_modifiers s1 = required_modifiers s \<Longrightarrow> pressed_modifiers s1 = pressed_modifiers s
   \<Longrightarrow> are_modifiers_pressed s1 = are_modifiers_pressed s"
  by (simp add: are_modifiers_pressed_def)

text \<open>
  For a target key that is not one of the nine modifier keys, a run of down events
  with the modifiers held calls the press callback once, on the first event, and every
  event of the run is suppressed.
\<close>

lemma repeat_down_consumed:
  assumes "\<not> is_modifier_key key" and "is_target_key s key" and "are_modifiers_pressed s"
    and "key_pressed s"
  shows "handle_events (map (\<lambda>t. Down t key) ts) s = (replicate (length ts) False, s)"
  using assms
  by (induction ts) (simp_all add: on_key_press_def)

lemma first_down_fires:
  assumes "\<not> is_modifier_key key" and "is_target_key s key" and "are_modifiers_pressed s"
    and "\<not> key_pressed s"
  shows "on_key_press t key s =
           (False, s\<lparr>key_pressed := True, press_start_time := Some t,
                     calls := (if on_press_callback s then calls s @ [PressCallback]
                               else calls s)\<rparr>)"
  using assms by (simp add: on_key_press_def)

lemma press_fires_once:
  assumes "\<not> is_modifier_key key" and "is_target_key s key" and "are_modifiers_pressed s"
    and "\<not> key_pressed s" and "on_press_callback s"
  shows "handle_events (map (\<lambda>t. Down t key) (t # ts)) s =
           (replicate (Suc (length ts)) False,
            s\<lparr>key_pressed := True, press_start_time := Some t,
              calls := calls s @ [PressCallback]\<rparr>)"
proof -
  let ?s1 = "s\<lparr>key_pressed := True, press_start_time := Some t,
               calls := calls s @ [PressCallback]\<rparr>"
  have first: "on_key_press t key s = (False, ?s1)"
    using assms by (simp add: first_down_fires)
  have target: "is_target_key ?s1 key"
    using assms(2) is_target_key_cong [of ?s1 s key] by simp
  have mods: "are_modifiers_pressed ?s1"
    using assms(3) are_modifiers_pressed_cong [of ?s1 s] by simp
  have latched: "key_pressed ?s1"
    by simp
  have rest: "handle_events (map (\<lambda>t. Down t key) ts) ?s1 = (replicate (length ts) False, ?s1)"
    by (rule repeat_down_consumed [OF assms(1) target mods latched])
  show ?thesis
    by (simp add: first rest)
qed

text \<open>
  A down event of a modifier key returns before the target test: it is passed through
  and neither latches the hotkey nor calls the press callback.
\<close>

lemma modifier_key_press_passes:
  "is_modifier_key key \<Longrightarrow>
     fst (on_key_press now key s) \<and> calls (snd (on_key_press now key s)) = calls s
     \<and> key_pressed (snd (on_key_press now key s)) = key_pressed s"
  by (cases key) (simp_all add: on_key_press_def is_modifier_key_def)

lemma split_ctrl_alt_r: "split_on CHR ''+'' ''ctrl+alt_r'' = [''ctrl'', ''alt_r'']"
  by simp

lemma strip_ctrl_alt_r: "strip ''ctrl'' = ''ctrl''" "strip ''alt_r'' = ''alt_r''"
  by (simp_all add: strip_def isspace_def)

lemma lower_ctrl_alt_r: "lower ''ctrl'' = ''ctrl''" "lower ''alt_r'' = ''alt_r''"
  by (simp_all add: lower_def lower_char_def)

lemma map_of_ctrl_alt_r:
  "map_of KEY_MAPPING ''alt_r'' = Some (K alt_r)" "map_of KEY_MAPPING ''ctrl'' = Some (K ctrl)"
  by (simp_all add: KEY_MAPPING_def)

lemma parse_ctrl_alt_r: "parse_hotkey ''ctrl+alt_r'' = Inr (K alt_r, {K ctrl})"
  by (simp add: parse_hotkey_def split_ctrl_alt_r strip_ctrl_alt_r lower_ctrl_alt_r
      map_of_ctrl_alt_r)

lemma ctrl_alt_r_listener_made:
  "HotkeyListener ''ctrl+alt_r'' True True 100 = Inr ctrl_alt_r_listener"
  by (simp add: HotkeyListener_def parse_ctrl_alt_r ctrl_alt_r_listener_def)

text \<open>
  Claim C8 at the hotkey \<^verbatim>\<open>ctrl+alt_r\<close>, the combination the docstrings of
  \<^verbatim>\<open>_parse_hotkey\<close> give as their example.  The target \<^verbatim>\<open>alt_r\<close> is itself a modifier
  key, so with \<^verbatim>\<open>ctrl\<close> held its down events are all passed through (return value
  \<open>True\<close>) and the press callback is never called: \<open>calls\<close> stays empty and the key is
  never latched.
\<close>

theorem ctrl_alt_r_never_fires:
  "HotkeyListener ''ctrl+alt_r'' True True 100 = Inr ctrl_alt_r_listener
   \<and> handle_events [Down 1 (Special ctrl), Down 2 (Special alt_r), Down 3 (Special alt_r)]
        ctrl_alt_r_listener
      = ([True, True, True], ctrl_alt_r_listener\<lparr>pressed_modifiers := {ctrl, alt_r}\<rparr>)"
  by (simp add: ctrl_alt_r_listener_made)
     (simp add: ctrl_alt_r_listener_def on_key_press_def is_modifier_key_def insert_commute)

section \<open>Properties of the speech recogniser\<close>

text \<open>What loading and transcribing leave unchanged.\<close>

lemma load_model_fields [simp]:
  "emitted (snd (load_model env s)) = emitted s"
  "is_streaming (snd (load_model env s)) = is_streaming s"
  "streaming_callback (snd (load_model env s)) = streaming_callback s"
  "language (snd (load_model env s)) = language s"
  "current_transcription (snd (load_model env s)) = current_transcription s"
  "vad_enabled (snd (load_model env s)) = vad_enabled s"
  by (simp_all add: load_model_def Let_def split: option.splits)

lemma ensure_model_loaded_fields [simp]:
  "emitted (snd (ensure_model_loaded env s)) = emitted s"
  "is_streaming (snd (ensure_model_loaded env s)) = is_streaming s"
  "streaming_callback (snd (ensure_model_loaded env s)) = streaming_callback s"
  "language (snd (ensure_model_loaded env s)) = language s"
  "current_transcription (snd (ensure_model_loaded env s)) = current_transcription s"
  "vad_enabled (snd (ensure_model_loaded env s)) = vad_enabled s"
  by (simp_all add: ensure_model_loaded_def)

lemma schedule_model_unload_fields [simp]:
  "emitted (schedule_model_unload s) = emitted s"
  "is_streaming (schedule_model_unload s) = is_streaming s"
  "streaming_callback (schedule_model_unload s) = streaming_callback s"
  "language (schedule_model_unload s) = language s"
  "current_transcription (schedule_model_unload s) = current_transcription s"
  by (simp_all add: schedule_model_unload_def)

lemma detect_language_fields [simp]:
  "emitted (snd (detect_language env a s)) = emitted s"
  "is_streaming (snd (detect_language env a s)) = is_streaming s"
  "streaming_callback (snd (detect_language env a s)) = streaming_callback s"
  "language (snd (detect_language env a s)) = language s"
  "current_transcription (snd (detect_language env a s)) = current_transcription s"
proof -
  obtain r s1 where e: "ensure_model_loaded env s = (r, s1)"
    by (cases "ensure_model_loaded env s")
  have s1: "s1 = snd (ensure_model_loaded env s)"
    by (simp add: e)
  have d: "snd (detect_language env a s) = s1"
    by (simp add: detect_language_def e split: option.splits sum.splits prod.splits)
  show "emitted (snd (detect_language env a s)) = emitted s"
    "is_streaming (snd (detect_language env a s)) = is_streaming s"
    "streaming_callback (snd (detect_language env a s)) = streaming_callback s"
    "language (snd (detect_language env a s)) = language s"
    "current_transcription (snd (detect_language env a s)) = current_transcription s"
    unfolding d s1 by simp_all
qed





















lemma stop_streaming_fields:
  "emitted (stop_streaming_transcription s) = emitted s"
  "\<not> is_streaming (stop_streaming_transcription s)"
  "is_streaming s \<Longrightarrow> \<not> streaming_callback (stop_streaming_transcription s)"
  by (simp_all add: stop_streaming_transcription_def)


lemma transcribe_error_class:
  "fst (transcribe env a rate s) = Inl e \<Longrightarrow> fst e = TranscriptionError"
  by (auto simp: transcribe_def split: prod.splits sum.splits)





text \<open>
  Without audio the method stops streaming, which clears the callback, before it
  reaches the statement that would emit the final text: nothing is emitted either.
\<close>

lemma finalize_without_audio_emits_nothing:
  assumes "is_streaming s"
  shows "emitted (snd (finalize_transcription env None s)) = emitted s"
  using assms
  by (simp add: finalize_transcription_def finalize_body_def Let_def stop_streaming_fields)

end
